theory Spec2Isabelle
  imports Main "HOL-Library.AList" "HOL-Library.Sublist" "HOL-Library.Word"
begin

section \<open>Nuntius: the connection and channel registries of an Application\<close>

text \<open>
  The development embeds \<^verbatim>\<open>src/connection/connection.go\<close>, which holds package
  \<^verbatim>\<open>connection\<close> (type \<^verbatim>\<open>Connection\<close>) and package \<^verbatim>\<open>app\<close>
  (type \<^verbatim>\<open>Application\<close>).

  Conventions of the embedding.
  \<^item> A method is a function on the state it can reach, returning its result and the
    state after the call. One call runs to completion on its own: \<^verbatim>\<open>Lock\<close>,
    \<^verbatim>\<open>RLock\<close> and their deferred releases delimit critical sections and have no
    effect of their own on a sequential run, so mutexes are not fields of the records.
  \<^item> A \<^verbatim>\<open>*channel.Channel\<close> is an address into a store of Channel objects (the
    field \<open>heap\<close>): the registry holds pointers, and \<^verbatim>\<open>RemoveChannel\<close>,
    \<^verbatim>\<open>AddChannel\<close> and \<^verbatim>\<open>Unsubscribe\<close> receive pointers that may or may
    not be the registered ones. A pointer is assumed to be non-nil and to point to a live
    object (\<open>c < length (heap w)\<close>).
  \<^item> A \<^verbatim>\<open>*connection.Connection\<close> is held by value: no field of a Connection is
    assigned after \<^verbatim>\<open>New\<close>, and no code of the file compares two such pointers.
  \<^item> A Go \<^verbatim>\<open>map\<close> is an association list with distinct keys. \<^verbatim>\<open>range\<close>
    visits the entries in the order of the list; Go leaves the order open, and every
    theorem below holds for each order of the list.
  \<^item> \<^verbatim>\<open>expvar.Map.Add(key, delta)\<close> adds \<open>delta\<close> to the 64-bit integer stored
    under \<open>key\<close>, which starts at zero when the key is new. Counters are \<open>64 word\<close>,
    so addition wraps as \<^verbatim>\<open>int64\<close> does; \<open>sint\<close> reads the signed value.
  \<^item> \<^verbatim>\<open>glog\<close> output is a list of entries (format string and arguments).
  \<^item> \<^verbatim>\<open>Application.Publish\<close> and \<^verbatim>\<open>Application.Subscribe\<close> only hand their
    arguments to \<^verbatim>\<open>Channel.Publish\<close> and \<^verbatim>\<open>Channel.Subscribe\<close>, which are not in
    the file; they are not embedded.
\<close>

subsection \<open>Errors, log entries\<close>

datatype error = errors_New string

fun Error :: "error \<Rightarrow> string" where
  "Error (errors_New text) = text"

datatype entry = Infof string "string list" | Errorf string "string list"

subsection \<open>Package connection\<close>

text \<open>
  How a call ends: it returns a value, or it panics with a message.
\<close>

datatype 'a call = Returns 'a | Panics string

text \<open>
  \<^verbatim>\<open>Socket\<close> is an interface with the one method \<^verbatim>\<open>WriteJSON(interface{}) error\<close>;
  its implementations belong to the transport layer. The field \<open>Socket\<close> of a Connection
  is \<open>None\<close> for the \<^verbatim>\<open>nil\<close> interface value (\<^verbatim>\<open>New\<close> stores what it is given,
  unchecked) and the handle of a socket otherwise. The method is a parameter
  \<open>WriteJSON\<close> of type \<open>sock \<Rightarrow> 'm \<Rightarrow> error option call\<close>: the call returns an error
  (\<open>None\<close> for \<^verbatim>\<open>nil\<close>) or panics.
\<close>

type_synonym sock = nat

record Connection =
  SocketID :: string
  Socket :: "sock option"
  CreatedAt :: nat

definition Connection_New :: "string \<Rightarrow> sock option \<Rightarrow> nat \<Rightarrow> Connection \<times> entry list" where
  "Connection_New socketID s now =
     (\<lparr>SocketID = socketID, Socket = s, CreatedAt = now\<rparr>,
      [Infof ''Creating a new Subscriber %+v'' [socketID]])"

text \<open>The panic of the Go runtime for a method call on a \<^verbatim>\<open>nil\<close> interface value.\<close>

definition nil_dereference :: string where
  "nil_dereference = ''runtime error: invalid memory address or nil pointer dereference''"

text \<open>
  \<^verbatim>\<open>Connection.Publish\<close> has no result in Go, and no \<^verbatim>\<open>recover\<close>: its one deferred
  call is \<^verbatim>\<open>conn.Unlock()\<close>, so a panic raised inside the call passes on to the caller.
  The model returns the Connection after the call, what the call logged, and how the call
  ended.
\<close>

definition Connection_Publish ::
  "(sock \<Rightarrow> 'm \<Rightarrow> error option call) \<Rightarrow> Connection \<Rightarrow> 'm \<Rightarrow>
     Connection \<times> entry list \<times> unit call" where
  "Connection_Publish WriteJSON conn m =
     (case Socket conn of
        None \<Rightarrow> (conn, [], Panics nil_dereference)
      | Some s \<Rightarrow>
          (case WriteJSON s m of
             Panics p \<Rightarrow> (conn, [], Panics p)
           | Returns (Some err) \<Rightarrow>
               (conn, [Errorf ''error writing json into Socket, %+v'' [Error err]], Returns ())
           | Returns None \<Rightarrow> (conn, [], Returns ())))"

subsection \<open>Package channel\<close>

text \<open>
  Package \<^verbatim>\<open>channel\<close> (and \<^verbatim>\<open>subscription\<close>) is imported by
  \<^verbatim>\<open>connection.go\<close> but is not among the source files. The definitions of this
  subsection are modelled from the specification (sections 3 and 4.2); each says so.
\<close>

datatype Kind = Public | Private | Presence

text \<open>The lifecycle events of a Channel, and the Application methods a listener calls.\<close>

datatype Hook = Occupied | Vacated | MemberAdded | MemberRemoved | ClientEvent

datatype Trigger =
    TriggerChannelOccupiedHook
  | TriggerChannelVacatedHook
  | TriggerMemberAddedHook
  | TriggerMemberRemovedHook
  | TriggerClientEventHook

text \<open>
  The options \<^verbatim>\<open>channel.New\<close> receives. In \<^verbatim>\<open>connection.go\<close> each option wraps
  a closure whose body is one call of a \<^verbatim>\<open>Trigger...Hook\<close> method of the Application;
  the closure is represented by the method it calls.
\<close>

datatype ChannelOption =
    WithChannelOccupiedListener Trigger
  | WithChannelVacatedListener Trigger
  | WithMemberAddedListener Trigger
  | WithMemberRemovedListener Trigger
  | WithClientEventListener Trigger

fun listens :: "ChannelOption \<Rightarrow> Hook" where
  "listens (WithChannelOccupiedListener t) = Occupied"
| "listens (WithChannelVacatedListener t) = Vacated"
| "listens (WithMemberAddedListener t) = MemberAdded"
| "listens (WithMemberRemovedListener t) = MemberRemoved"
| "listens (WithClientEventListener t) = ClientEvent"

fun calls :: "ChannelOption \<Rightarrow> Trigger" where
  "calls (WithChannelOccupiedListener t) = t"
| "calls (WithChannelVacatedListener t) = t"
| "calls (WithMemberAddedListener t) = t"
| "calls (WithMemberRemovedListener t) = t"
| "calls (WithClientEventListener t) = t"

text \<open>
  Modelled from the spec: the Subscription record of package \<^verbatim>\<open>subscription\<close>
  (section 3: a reference to a Connection and optional member data; the back-reference
  to the Channel is the roster the Subscription is stored in).
\<close>

record Subscription =
  Conn :: Connection
  Data :: string

text \<open>
  Modelled from the spec: the Channel record of package \<^verbatim>\<open>channel\<close> (section 3:
  identifier, kind, mapping from socket identifier to Subscription, the listeners
  supplied at construction). The field \<open>ID\<close> is the one \<^verbatim>\<open>connection.go\<close> reads.
\<close>

record Channel =
  ID :: string
  kind :: Kind
  subscriptions :: "(string \<times> Subscription) list"
  listeners :: "ChannelOption list"

text \<open>
  Modelled from the spec: the kind of a channel identifier (section 3: "presence-" gives
  presence, "private-" gives private, anything else public).
\<close>

definition kind_of :: "string \<Rightarrow> Kind" where
  "kind_of n =
     (if prefix ''presence-'' n then Presence
      else if prefix ''private-'' n then Private
      else Public)"

text \<open>Modelled from the spec: \<^verbatim>\<open>Channel.IsPresence\<close>, \<^verbatim>\<open>IsPrivate\<close>, \<^verbatim>\<open>IsPublic\<close>.\<close>

definition Channel_IsPresence :: "Channel \<Rightarrow> bool" where
  "Channel_IsPresence c = (kind c = Presence)"

definition Channel_IsPrivate :: "Channel \<Rightarrow> bool" where
  "Channel_IsPrivate c = (kind c = Private)"

definition Channel_IsPublic :: "Channel \<Rightarrow> bool" where
  "Channel_IsPublic c = (kind c = Public)"

text \<open>
  Modelled from the spec: \<^verbatim>\<open>Channel.IsSubscribed\<close> (section 4.3: lookup keyed by
  socket identifier) and \<^verbatim>\<open>Channel.IsOccupied\<close> (section 4.2: true iff the roster is
  non-empty).
\<close>

definition Channel_IsSubscribed :: "Channel \<Rightarrow> Connection \<Rightarrow> bool" where
  "Channel_IsSubscribed c conn = (map_of (subscriptions c) (SocketID conn) \<noteq> None)"

definition Channel_IsOccupied :: "Channel \<Rightarrow> bool" where
  "Channel_IsOccupied c = (subscriptions c \<noteq> [])"

text \<open>
  Modelled from the spec: \<^verbatim>\<open>Channel.Unsubscribe\<close> (section 4.2: fails with NotFound
  if the connection is not a current member; on success fires MemberRemoved, presence
  only, then Vacated if the roster has become empty). The result is the channel after the
  call and the lifecycle events fired, in order, each with the Subscription removed. The
  text of the error is not in the spec; no theorem depends on it.
\<close>

definition ErrNotSubscribed :: error where
  "ErrNotSubscribed = errors_New ''NotFound''"

definition Channel_Unsubscribe ::
  "Channel \<Rightarrow> Connection \<Rightarrow> error + Channel \<times> (Hook \<times> Subscription) list" where
  "Channel_Unsubscribe c conn =
     (case map_of (subscriptions c) (SocketID conn) of
        None \<Rightarrow> Inl ErrNotSubscribed
      | Some s \<Rightarrow>
          (let roster = AList.delete (SocketID conn) (subscriptions c) in
           Inr (c\<lparr>subscriptions := roster\<rparr>,
                (if kind c = Presence then [(MemberRemoved, s)] else []) @
                (if roster = [] then [(Vacated, s)] else []))))"

text \<open>
  Modelled from the spec: \<^verbatim>\<open>channel.New\<close> (section 3: the kind is derived once from
  the identifier; the listeners are those supplied at construction; a new channel has no
  member).
\<close>

definition Channel_New :: "string \<Rightarrow> ChannelOption list \<Rightarrow> Channel" where
  "Channel_New channelID options =
     \<lparr>ID = channelID, kind = kind_of channelID, subscriptions = [], listeners = options\<rparr>"

subsection \<open>Package app: the Application and the state around it\<close>

type_synonym ref = nat

record Application =
  Name :: string
  AppID :: string
  Key :: string
  Secret :: string
  OnlySSL :: bool
  Enabled :: bool
  UserEvents :: bool
  WebHooks :: bool
  URLWebHook :: string
  channels :: "(string \<times> ref) list"
  connections :: "(string \<times> Connection) list"
  Stats :: "string \<rightharpoonup> 64 word"

text \<open>
  The state a method of the Application runs in: the Application \<open>app\<close>, the store of
  Channel objects, the log, and the webhook calls made so far (trigger, channel
  identifier, socket identifier of the Subscription the listener received).
\<close>

record world =
  app :: Application
  heap :: "Channel list"
  glog :: "entry list"
  webhooks :: "(Trigger \<times> string \<times> string) list"

definition NewApplication ::
  "string \<Rightarrow> string \<Rightarrow> string \<Rightarrow> string \<Rightarrow> bool \<Rightarrow> bool \<Rightarrow> bool \<Rightarrow> bool \<Rightarrow> string \<Rightarrow> Application" where
  "NewApplication name appID key secret onlySSL enabled userEvents webHooks webHookURL =
     \<lparr>Name = name, AppID = appID, Key = key, Secret = secret, OnlySSL = onlySSL,
      Enabled = enabled, UserEvents = userEvents, WebHooks = webHooks,
      URLWebHook = webHookURL, channels = [], connections = [], Stats = Map.empty\<rparr>"

definition log :: "entry \<Rightarrow> world \<Rightarrow> world" where
  "log e w = w\<lparr>glog := glog w @ [e]\<rparr>"

definition counter :: "Application \<Rightarrow> string \<Rightarrow> 64 word" where
  "counter a key = (case Stats a key of None \<Rightarrow> 0 | Some v \<Rightarrow> v)"

definition Stats_Add :: "string \<Rightarrow> 64 word \<Rightarrow> world \<Rightarrow> world" where
  "Stats_Add key delta w =
     w\<lparr>app := (app w)\<lparr>Stats := (Stats (app w))(key \<mapsto> counter (app w) key + delta)\<rparr>\<rparr>"

text \<open>
  Modelled from the spec: the \<^verbatim>\<open>Trigger...Hook\<close> methods of the Application, which
  are not in \<^verbatim>\<open>connection.go\<close> (section 4.4: each listener translates into an
  Application-level webhook trigger; section 6: the webhook is delivered out of band by
  the dispatcher). A trigger records the call; it touches neither registry nor counters.
  \<open>fire\<close> runs, for the events a Channel operation fired, the listeners of the channel
  that listen to them.
\<close>

definition trigger :: "Channel \<Rightarrow> Hook \<times> Subscription \<Rightarrow> (Trigger \<times> string \<times> string) list" where
  "trigger c ev =
     map (\<lambda>opt. (calls opt, ID c, SocketID (Conn (snd ev))))
       (filter (\<lambda>opt. listens opt = fst ev) (listeners c))"

definition fire :: "Channel \<Rightarrow> (Hook \<times> Subscription) list \<Rightarrow> world \<Rightarrow> world" where
  "fire c evs w = w\<lparr>webhooks := webhooks w @ concat (map (trigger c) evs)\<rparr>"

text \<open>The call \<^verbatim>\<open>c.Unsubscribe(conn)\<close> through the pointer \<open>c\<close>.\<close>

definition call_Unsubscribe :: "ref \<Rightarrow> Connection \<Rightarrow> world \<Rightarrow> error option \<times> world" where
  "call_Unsubscribe c conn w =
     (case Channel_Unsubscribe (heap w ! c) conn of
        Inl err \<Rightarrow> (Some err, w)
      | Inr (c', evs) \<Rightarrow> (None, fire c' evs (w\<lparr>heap := (heap w)[c := c']\<rparr>)))"

subsection \<open>The methods of the Application\<close>

text \<open>
  The four filter queries. Each is a loop over \<^verbatim>\<open>a.channels\<close> that appends the
  pointers it keeps to a slice.
\<close>

definition Channels :: "world \<Rightarrow> ref list \<times> world" where
  "Channels w = (map snd (channels (app w)), w)"

definition PresenceChannels :: "world \<Rightarrow> ref list \<times> world" where
  "PresenceChannels w =
     (map snd (filter (\<lambda>(n, c). Channel_IsPresence (heap w ! c)) (channels (app w))), w)"

definition PrivateChannels :: "world \<Rightarrow> ref list \<times> world" where
  "PrivateChannels w =
     (map snd (filter (\<lambda>(n, c). Channel_IsPrivate (heap w ! c)) (channels (app w))), w)"

definition PublicChannels :: "world \<Rightarrow> ref list \<times> world" where
  "PublicChannels w =
     (map snd (filter (\<lambda>(n, c). Channel_IsPublic (heap w ! c)) (channels (app w))), w)"

definition FindConnection :: "string \<Rightarrow> world \<Rightarrow> (error + Connection) \<times> world" where
  "FindConnection socketID w =
     (case map_of (connections (app w)) socketID of
        Some conn \<Rightarrow> (Inr conn, w)
      | None \<Rightarrow> (Inl (errors_New ''connection not found''), w))"

definition FindChannelByChannelID :: "string \<Rightarrow> world \<Rightarrow> (error + ref) \<times> world" where
  "FindChannelByChannelID n w =
     (case map_of (channels (app w)) n of
        Some c \<Rightarrow> (Inr c, w)
      | None \<Rightarrow> (Inl (errors_New ''channel does not exists''), w))"

definition Connect :: "Connection \<Rightarrow> world \<Rightarrow> world" where
  "Connect conn w0 =
     (let w1 = log (Infof ''adding a new Connection %s to Application %s''
                      [SocketID conn, Name (app w0)]) w0;
          w2 = w1\<lparr>app := (app w1)\<lparr>connections :=
                 AList.update (SocketID conn) conn (connections (app w1))\<rparr>\<rparr>
      in Stats_Add ''TotalConnections'' 1 w2)"

text \<open>
  The three kind tests of \<^verbatim>\<open>AddChannel\<close> and \<^verbatim>\<open>RemoveChannel\<close> are three
  separate \<^verbatim>\<open>if\<close> statements, run one after the other.
\<close>

definition kind_counters :: "Channel \<Rightarrow> 64 word \<Rightarrow> world \<Rightarrow> world" where
  "kind_counters c delta w0 =
     (let w1 = (if Channel_IsPresence c then Stats_Add ''TotalPresenceChannels'' delta w0 else w0);
          w2 = (if Channel_IsPrivate c then Stats_Add ''TotalPrivateChannels'' delta w1 else w1);
          w3 = (if Channel_IsPublic c then Stats_Add ''TotalPublicChannels'' delta w2 else w2)
      in Stats_Add ''TotalChannels'' delta w3)"

definition RemoveChannel :: "ref \<Rightarrow> world \<Rightarrow> world" where
  "RemoveChannel c w0 =
     (let w1 = log (Infof ''remove the Channel %s from Application %s''
                      [ID (heap w0 ! c), Name (app w0)]) w0;
          w2 = w1\<lparr>app := (app w1)\<lparr>channels :=
                 AList.delete (ID (heap w1 ! c)) (channels (app w1))\<rparr>\<rparr>
      in kind_counters (heap w2 ! c) (- 1) w2)"

definition AddChannel :: "ref \<Rightarrow> world \<Rightarrow> world" where
  "AddChannel c w0 =
     (let w1 = log (Infof ''adding a new Channel %s to Application %s''
                      [ID (heap w0 ! c), Name (app w0)]) w0;
          w2 = w1\<lparr>app := (app w1)\<lparr>channels :=
                 AList.update (ID (heap w1 ! c)) c (channels (app w1))\<rparr>\<rparr>
      in kind_counters (heap w2 ! c) 1 w2)"

text \<open>
  The loop of \<^verbatim>\<open>Disconnect\<close> over \<^verbatim>\<open>a.channels\<close>: it calls
  \<^verbatim>\<open>c.Unsubscribe(conn)\<close>, the method of the Channel, on every channel \<open>conn\<close> is
  subscribed to, logs an error it returns and goes on. No step of the loop changes
  \<^verbatim>\<open>a.channels\<close>, so the loop runs over the entries the registry has when it starts.
\<close>

fun unsubscribe_each :: "Connection \<Rightarrow> (string \<times> ref) list \<Rightarrow> world \<Rightarrow> world" where
  "unsubscribe_each conn [] w = w"
| "unsubscribe_each conn ((n, c) # rest) w =
     unsubscribe_each conn rest
       (if Channel_IsSubscribed (heap w ! c) conn then
          (case call_Unsubscribe c conn w of
             (Some err, w') \<Rightarrow>
               log (Errorf ''error while calling Channel.Unsubscribe, %+v'' [Error err]) w'
           | (None, w') \<Rightarrow> w')
        else w)"

definition Disconnect :: "string \<Rightarrow> world \<Rightarrow> world" where
  "Disconnect socketID w0 =
     (let w1 = log (Infof ''disconnecting socket %+v'' [socketID]) w0 in
      case FindConnection socketID w1 of
        (Inl err, w2) \<Rightarrow> log (Infof ''socket not found, %+v'' [Error err]) w2
      | (Inr conn, w2) \<Rightarrow>
          (let w3 = unsubscribe_each conn (channels (app w2)) w2;
               exists = (map_of (connections (app w3)) (SocketID conn) \<noteq> None)
           in if \<not> exists then w3
              else Stats_Add ''TotalConnections'' (- 1)
                     (w3\<lparr>app := (app w3)\<lparr>connections :=
                        AList.delete (SocketID conn) (connections (app w3))\<rparr>\<rparr>)))"

text \<open>
  \<^verbatim>\<open>FindOrCreateChannelByChannelID\<close>: \<^verbatim>\<open>channel.New\<close> allocates the new Channel
  at the next free address of the store.
\<close>

definition app_listeners :: "ChannelOption list" where
  "app_listeners =
     [WithChannelOccupiedListener TriggerChannelOccupiedHook,
      WithChannelVacatedListener TriggerChannelVacatedHook,
      WithMemberAddedListener TriggerMemberAddedHook,
      WithMemberRemovedListener TriggerMemberRemovedHook,
      WithClientEventListener TriggerClientEventHook]"

definition FindOrCreateChannelByChannelID :: "string \<Rightarrow> world \<Rightarrow> ref \<times> world" where
  "FindOrCreateChannelByChannelID n w0 =
     (case FindChannelByChannelID n w0 of
        (Inr c, w1) \<Rightarrow> (c, w1)
      | (Inl err, w1) \<Rightarrow>
          (let c = length (heap w1);
               w2 = w1\<lparr>heap := heap w1 @ [Channel_New n app_listeners]\<rparr>
           in (c, AddChannel c w2)))"

text \<open>\<^verbatim>\<open>Application.Unsubscribe\<close>.\<close>

definition Application_Unsubscribe :: "ref \<Rightarrow> Connection \<Rightarrow> world \<Rightarrow> error option \<times> world" where
  "Application_Unsubscribe c conn w0 =
     (case call_Unsubscribe c conn w0 of
        (Some err, w1) \<Rightarrow> (Some err, w1)
      | (None, w1) \<Rightarrow>
          (None, if \<not> Channel_IsOccupied (heap w1 ! c) then RemoveChannel c w1 else w1))"

text \<open>
  The state of a Go program: the keys of a map are distinct, every registered pointer
  is live, and an entry is stored under the identifier of its object
  (\<^verbatim>\<open>a.channels[c.ID] = c\<close>, \<^verbatim>\<open>a.connections[conn.SocketID] = conn\<close>; no code
  assigns \<^verbatim>\<open>ID\<close> or \<^verbatim>\<open>SocketID\<close> afterwards).
\<close>

definition wf :: "world \<Rightarrow> bool" where
  "wf w =
     (distinct (map fst (channels (app w))) \<and>
      distinct (map fst (connections (app w))) \<and>
      list_all (\<lambda>(n, c). c < length (heap w) \<and> ID (heap w ! c) = n) (channels (app w)) \<and>
      list_all (\<lambda>(s, conn). SocketID conn = s) (connections (app w)))"

subsection \<open>Sequences of calls, and what the counters are compared with\<close>

datatype op = OpConnect Connection | OpDisconnect string | OpAddChannel ref | OpRemoveChannel ref

fun step :: "op \<Rightarrow> world \<Rightarrow> world" where
  "step (OpConnect conn) w = Connect conn w"
| "step (OpDisconnect socketID) w = Disconnect socketID w"
| "step (OpAddChannel c) w = AddChannel c w"
| "step (OpRemoveChannel c) w = RemoveChannel c w"

fun run :: "op list \<Rightarrow> world \<Rightarrow> world" where
  "run [] w = w"
| "run (x # xs) w = run xs (step x w)"

text \<open>
  A call is disciplined for a registry, in a state, when it changes the registry by the
  entry its counter adjustment stands for. For the connection registry: \<^verbatim>\<open>Connect\<close>
  for a socket identifier that is not registered (\<^verbatim>\<open>Disconnect\<close> makes its own
  check). For the channel registry: \<^verbatim>\<open>AddChannel\<close> for a channel identifier that is
  not registered, \<^verbatim>\<open>RemoveChannel\<close> for a channel identifier that is registered. A
  sequence of calls is disciplined for a registry when each call is, in the state it runs
  in.
\<close>

fun connection_disciplined :: "op \<Rightarrow> world \<Rightarrow> bool" where
  "connection_disciplined (OpConnect conn) w =
     (map_of (connections (app w)) (SocketID conn) = None)"
| "connection_disciplined (OpDisconnect socketID) w = True"
| "connection_disciplined (OpAddChannel c) w = True"
| "connection_disciplined (OpRemoveChannel c) w = True"

fun channel_disciplined :: "op \<Rightarrow> world \<Rightarrow> bool" where
  "channel_disciplined (OpConnect conn) w = True"
| "channel_disciplined (OpDisconnect socketID) w = True"
| "channel_disciplined (OpAddChannel c) w = (map_of (channels (app w)) (ID (heap w ! c)) = None)"
| "channel_disciplined (OpRemoveChannel c) w =
     (map_of (channels (app w)) (ID (heap w ! c)) \<noteq> None)"

fun connections_disciplined :: "op list \<Rightarrow> world \<Rightarrow> bool" where
  "connections_disciplined [] w = True"
| "connections_disciplined (x # xs) w =
     (connection_disciplined x w \<and> connections_disciplined xs (step x w))"

fun channels_disciplined :: "op list \<Rightarrow> world \<Rightarrow> bool" where
  "channels_disciplined [] w = True"
| "channels_disciplined (x # xs) w =
     (channel_disciplined x w \<and> channels_disciplined xs (step x w))"

text \<open>The key of the counter \<^verbatim>\<open>AddChannel\<close> and \<^verbatim>\<open>RemoveChannel\<close> adjust for a kind.\<close>

definition kind_key :: "Kind \<Rightarrow> string" where
  "kind_key k =
     (case k of
        Presence \<Rightarrow> ''TotalPresenceChannels''
      | Private \<Rightarrow> ''TotalPrivateChannels''
      | Public \<Rightarrow> ''TotalPublicChannels'')"

definition kinds_sum :: "world \<Rightarrow> bool" where
  "kinds_sum w =
     (counter (app w) ''TotalPresenceChannels'' + counter (app w) ''TotalPrivateChannels'' +
      counter (app w) ''TotalPublicChannels'' = counter (app w) ''TotalChannels'')"

definition connections_match :: "world \<Rightarrow> bool" where
  "connections_match w =
     (distinct (map fst (connections (app w))) \<and>
      counter (app w) ''TotalConnections'' = of_nat (length (connections (app w))))"

definition channels_match :: "world \<Rightarrow> bool" where
  "channels_match w =
     (distinct (map fst (channels (app w))) \<and>
      counter (app w) ''TotalChannels'' = of_nat (length (channels (app w))))"

subsection \<open>Example states\<close>

text \<open>
  Two sockets; a second Connection \<open>conn1'\<close> made for the socket identifier of the
  first. Three channels, one of each kind: \<open>room\<close> has the member sock-1, \<open>chat\<close> the
  members sock-1 and sock-2, \<open>lobby\<close> the member sock-2.
\<close>

definition conn1 :: Connection where
  "conn1 = \<lparr>SocketID = ''sock-1'', Socket = Some 1, CreatedAt = 10\<rparr>"

definition conn2 :: Connection where
  "conn2 = \<lparr>SocketID = ''sock-2'', Socket = Some 2, CreatedAt = 20\<rparr>"

definition conn1' :: Connection where
  "conn1' = \<lparr>SocketID = ''sock-1'', Socket = Some 3, CreatedAt = 30\<rparr>"

text \<open>A Connection made by \<^verbatim>\<open>New\<close> with a \<^verbatim>\<open>nil\<close> Socket.\<close>

definition unplugged :: Connection where
  "unplugged = fst (Connection_New ''sock-3'' None 40)"

definition room :: Channel where
  "room = \<lparr>ID = ''presence-room'', kind = Presence,
           subscriptions = [(''sock-1'', \<lparr>Conn = conn1, Data = ''u1''\<rparr>)],
           listeners = app_listeners\<rparr>"

definition chat :: Channel where
  "chat = \<lparr>ID = ''private-chat'', kind = Private,
           subscriptions = [(''sock-1'', \<lparr>Conn = conn1, Data = []\<rparr>),
                            (''sock-2'', \<lparr>Conn = conn2, Data = []\<rparr>)],
           listeners = app_listeners\<rparr>"

definition lobby :: Channel where
  "lobby = \<lparr>ID = ''lobby'', kind = Public,
            subscriptions = [(''sock-2'', \<lparr>Conn = conn2, Data = []\<rparr>)],
            listeners = app_listeners\<rparr>"

definition demo :: Application where
  "demo = NewApplication ''demo'' ''1'' ''key'' ''secret'' False True True True []"

text \<open>A fresh Application, beside three Channel objects it has not registered.\<close>

definition fresh :: world where
  "fresh = \<lparr>app = demo, heap = [room, chat, lobby], glog = [], webhooks = []\<rparr>"

text \<open>
  The Application after both sockets have connected and subscribed: the three channels
  are registered under their identifiers and the counters match.
\<close>

definition busy :: world where
  "busy =
     \<lparr>app = demo\<lparr>channels := [(''presence-room'', 0), (''private-chat'', 1), (''lobby'', 2)],
                  connections := [(''sock-1'', conn1), (''sock-2'', conn2)],
                  Stats := [''TotalConnections'' \<mapsto> 2, ''TotalPresenceChannels'' \<mapsto> 1,
                            ''TotalPrivateChannels'' \<mapsto> 1, ''TotalPublicChannels'' \<mapsto> 1,
                            ''TotalChannels'' \<mapsto> 3]\<rparr>,
      heap = [room, chat, lobby], glog = [], webhooks = []\<rparr>"

section \<open>Properties\<close>

subsection \<open>What each operation changes\<close>

lemma log_simps [simp]:
  "app (log e w) = app w"
  "heap (log e w) = heap w"
  "webhooks (log e w) = webhooks w"
  "glog (log e w) = glog w @ [e]"
  by (simp_all add: log_def)

lemma Stats_Add_simps [simp]:
  "heap (Stats_Add k d w) = heap w"
  "glog (Stats_Add k d w) = glog w"
  "webhooks (Stats_Add k d w) = webhooks w"
  "channels (app (Stats_Add k d w)) = channels (app w)"
  "connections (app (Stats_Add k d w)) = connections (app w)"
  "Name (app (Stats_Add k d w)) = Name (app w)"
  by (simp_all add: Stats_Add_def)

lemma counter_Stats_Add:
  "counter (app (Stats_Add k d w)) k' =
     (if k' = k then counter (app w) k + d else counter (app w) k')"
  by (simp add: Stats_Add_def counter_def)

lemma counter_upd [simp]:
  "counter (a\<lparr>connections := cs\<rparr>) k = counter a k"
  "counter (a\<lparr>channels := ch\<rparr>) k = counter a k"
  by (simp_all add: counter_def)

lemma fire_simps [simp]:
  "app (fire c evs w) = app w"
  "heap (fire c evs w) = heap w"
  "glog (fire c evs w) = glog w"
  by (simp_all add: fire_def)

lemma kind_counters_simps [simp]:
  "heap (kind_counters c d w) = heap w"
  "glog (kind_counters c d w) = glog w"
  "webhooks (kind_counters c d w) = webhooks w"
  "channels (app (kind_counters c d w)) = channels (app w)"
  "connections (app (kind_counters c d w)) = connections (app w)"
  "Name (app (kind_counters c d w)) = Name (app w)"
  by (simp_all add: kind_counters_def Let_def)

text \<open>Exactly one of the three kind tests holds, so exactly one kind counter moves.\<close>

lemma counter_kind_counters:
  "counter (app (kind_counters c d w)) key =
     (if key = ''TotalChannels'' \<or> key = kind_key (kind c) then counter (app w) key + d
      else counter (app w) key)"
  by (cases "kind c")
     (simp_all add: kind_counters_def Let_def counter_Stats_Add kind_key_def
        Channel_IsPresence_def Channel_IsPrivate_def Channel_IsPublic_def)

lemma kind_key_neq [simp]:
  "kind_key k \<noteq> ''TotalChannels''"
  "kind_key k \<noteq> ''TotalConnections''"
  "''TotalChannels'' \<noteq> kind_key k"
  "''TotalConnections'' \<noteq> kind_key k"
  by (cases k; simp add: kind_key_def)+

lemma RemoveChannel_simps [simp]:
  "heap (RemoveChannel c w) = heap w"
  "webhooks (RemoveChannel c w) = webhooks w"
  "connections (app (RemoveChannel c w)) = connections (app w)"
  "channels (app (RemoveChannel c w)) = AList.delete (ID (heap w ! c)) (channels (app w))"
  by (simp_all add: RemoveChannel_def Let_def)

lemma counter_RemoveChannel:
  "counter (app (RemoveChannel c w)) key =
     (if key = ''TotalChannels'' \<or> key = kind_key (kind (heap w ! c))
      then counter (app w) key - 1 else counter (app w) key)"
  by (simp add: RemoveChannel_def Let_def counter_kind_counters)

lemma AddChannel_simps [simp]:
  "heap (AddChannel c w) = heap w"
  "webhooks (AddChannel c w) = webhooks w"
  "connections (app (AddChannel c w)) = connections (app w)"
  "channels (app (AddChannel c w)) = AList.update (ID (heap w ! c)) c (channels (app w))"
  by (simp_all add: AddChannel_def Let_def)

lemma counter_AddChannel:
  "counter (app (AddChannel c w)) key =
     (if key = ''TotalChannels'' \<or> key = kind_key (kind (heap w ! c))
      then counter (app w) key + 1 else counter (app w) key)"
  by (simp add: AddChannel_def Let_def counter_kind_counters)

lemma Connect_simps [simp]:
  "channels (app (Connect conn w)) = channels (app w)"
  "connections (app (Connect conn w)) = AList.update (SocketID conn) conn (connections (app w))"
  "heap (Connect conn w) = heap w"
  "webhooks (Connect conn w) = webhooks w"
  by (simp_all add: Connect_def Let_def)

lemma counter_Connect:
  "counter (app (Connect conn w)) key =
     (if key = ''TotalConnections'' then counter (app w) key + 1 else counter (app w) key)"
  by (simp add: Connect_def Let_def counter_Stats_Add)

subsection \<open>Association lists\<close>

lemma length_update_present: "k \<in> fst ` set al \<Longrightarrow> length (AList.update k v al) = length al"
  by (induction al) auto

lemma length_update_absent:
  "k \<notin> fst ` set al \<Longrightarrow> length (AList.update k v al) = Suc (length al)"
  by (induction al) auto

lemma length_delete_present:
  "distinct (map fst al) \<Longrightarrow> k \<in> fst ` set al \<Longrightarrow> Suc (length (AList.delete k al)) = length al"
  by (induction al) (auto simp: image_iff)

lemma map_of_Some_key: "map_of al k = Some v \<Longrightarrow> k \<in> fst ` set al"
  by (metis domI dom_map_of_conv_image_fst)

subsection \<open>Unsubscribing through a pointer, and the loop of Disconnect\<close>

lemma call_Unsubscribe_fails:
  "\<not> Channel_IsSubscribed (heap w ! c) conn \<Longrightarrow>
   call_Unsubscribe c conn w = (Some ErrNotSubscribed, w)"
  by (simp add: call_Unsubscribe_def Channel_Unsubscribe_def Channel_IsSubscribed_def)

lemma call_Unsubscribe_succeeds:
  assumes "Channel_IsSubscribed (heap w ! c) conn"
  shows "\<exists>w'. call_Unsubscribe c conn w = (None, w') \<and> app w' = app w \<and> glog w' = glog w \<and>
           heap w' = (heap w)[c := (heap w ! c)\<lparr>subscriptions :=
              AList.delete (SocketID conn) (subscriptions (heap w ! c))\<rparr>]"
  using assms
  by (auto simp: call_Unsubscribe_def Channel_Unsubscribe_def Channel_IsSubscribed_def Let_def)

lemma Application_Unsubscribe_fails:
  "\<not> Channel_IsSubscribed (heap w ! c) conn \<Longrightarrow>
   Application_Unsubscribe c conn w = (Some ErrNotSubscribed, w)"
  by (simp add: Application_Unsubscribe_def call_Unsubscribe_fails)

lemma Application_Unsubscribe_succeeds:
  assumes "Channel_IsSubscribed (heap w ! c) conn" and "c < length (heap w)"
  shows "\<exists>w1. call_Unsubscribe c conn w = (None, w1) \<and> app w1 = app w \<and>
           ID (heap w1 ! c) = ID (heap w ! c) \<and>
           Application_Unsubscribe c conn w =
             (None, if Channel_IsOccupied (heap w1 ! c) then w1 else RemoveChannel c w1)"
proof -
  from call_Unsubscribe_succeeds [OF assms(1)] obtain w1 where
    c: "call_Unsubscribe c conn w = (None, w1)" and a: "app w1 = app w"
    and h: "heap w1 = (heap w)[c := (heap w ! c)\<lparr>subscriptions :=
              AList.delete (SocketID conn) (subscriptions (heap w ! c))\<rparr>]"
    by blast
  from h assms(2) have "ID (heap w1 ! c) = ID (heap w ! c)" by simp
  with c a show ?thesis by (simp add: Application_Unsubscribe_def)
qed

lemma unsubscribe_each_app [simp]: "app (unsubscribe_each conn chans w) = app w"
proof (induction chans arbitrary: w)
  case Nil
  show ?case by simp
next
  case (Cons p chans)
  obtain n c where p: "p = (n, c)" by (cases p)
  show ?case
  proof (cases "Channel_IsSubscribed (heap w ! c) conn")
    case True
    from call_Unsubscribe_succeeds [OF True] show ?thesis
      using Cons.IH p True by auto
  next
    case False
    then show ?thesis using Cons.IH p by simp
  qed
qed

text \<open>
  The loop leaves every Channel object where it is, with its identifier, kind and
  listeners; the roster of a channel the loop visits no longer has the connection.
\<close>

lemma unsubscribe_each_heap:
  "length (heap (unsubscribe_each conn chans w)) = length (heap w) \<and>
   (\<forall>r. r < length (heap w) \<longrightarrow>
        ID (heap (unsubscribe_each conn chans w) ! r) = ID (heap w ! r) \<and>
        kind (heap (unsubscribe_each conn chans w) ! r) = kind (heap w ! r) \<and>
        listeners (heap (unsubscribe_each conn chans w) ! r) = listeners (heap w ! r) \<and>
        subscriptions (heap (unsubscribe_each conn chans w) ! r) =
          (if r \<in> snd ` set chans
           then AList.delete (SocketID conn) (subscriptions (heap w ! r))
           else subscriptions (heap w ! r)))"
proof (induction chans arbitrary: w)
  case Nil
  show ?case by simp
next
  case (Cons p chans)
  obtain n c where p: "p = (n, c)" by (cases p)
  show ?case
  proof (cases "Channel_IsSubscribed (heap w ! c) conn")
    case True
    from call_Unsubscribe_succeeds [OF True] obtain w' where
      c: "call_Unsubscribe c conn w = (None, w')"
      and h: "heap w' = (heap w)[c := (heap w ! c)\<lparr>subscriptions :=
              AList.delete (SocketID conn) (subscriptions (heap w ! c))\<rparr>]"
      by blast
    have u: "unsubscribe_each conn (p # chans) w = unsubscribe_each conn chans w'"
      using p True c by simp
    have l: "length (heap w') = length (heap w)" using h by simp
    have "length (heap (unsubscribe_each conn chans w')) = length (heap w)"
      using Cons.IH [of w'] l by simp
    moreover have "ID (heap (unsubscribe_each conn chans w') ! r) = ID (heap w ! r) \<and>
        kind (heap (unsubscribe_each conn chans w') ! r) = kind (heap w ! r) \<and>
        listeners (heap (unsubscribe_each conn chans w') ! r) = listeners (heap w ! r) \<and>
        subscriptions (heap (unsubscribe_each conn chans w') ! r) =
          (if r \<in> snd ` set (p # chans)
           then AList.delete (SocketID conn) (subscriptions (heap w ! r))
           else subscriptions (heap w ! r))" if r: "r < length (heap w)" for r
    proof (cases "r = c")
      case True
      with r h have "heap w' ! r = (heap w ! r)\<lparr>subscriptions :=
              AList.delete (SocketID conn) (subscriptions (heap w ! r))\<rparr>" by simp
      then show ?thesis using Cons.IH [of w'] r l True p by (simp add: delete_idem)
    next
      case False
      with r h have "heap w' ! r = heap w ! r" by simp
      then show ?thesis using Cons.IH [of w'] r l False p by (simp add: image_iff)
    qed
    ultimately show ?thesis unfolding u by blast
  next
    case False
    then have n: "AList.delete (SocketID conn) (subscriptions (heap w ! c)) =
                    subscriptions (heap w ! c)"
      by (simp add: Channel_IsSubscribed_def map_of_eq_None_iff)
    have u: "unsubscribe_each conn (p # chans) w = unsubscribe_each conn chans w"
      using p False by simp
    have "subscriptions (heap (unsubscribe_each conn chans w) ! r) =
          (if r \<in> snd ` set (p # chans)
           then AList.delete (SocketID conn) (subscriptions (heap w ! r))
           else subscriptions (heap w ! r))" if r: "r < length (heap w)" for r
      using Cons.IH [of w] r p n by (cases "r = c") (simp_all add: image_iff)
    then show ?thesis unfolding u using Cons.IH [of w] by simp
  qed
qed

lemma Disconnect_app:
  "app (Disconnect socketID w) =
     (case map_of (connections (app w)) socketID of
        None \<Rightarrow> app w
      | Some conn \<Rightarrow>
          (if map_of (connections (app w)) (SocketID conn) = None then app w
           else app (Stats_Add ''TotalConnections'' (- 1)
                  (w\<lparr>app := (app w)\<lparr>connections :=
                        AList.delete (SocketID conn) (connections (app w))\<rparr>\<rparr>))))"
  by (simp add: Disconnect_def FindConnection_def Let_def Stats_Add_def counter_def
        split: option.splits)

lemma Disconnect_heap:
  "heap (Disconnect socketID w) =
     (case map_of (connections (app w)) socketID of
        None \<Rightarrow> heap w
      | Some conn \<Rightarrow>
          heap (unsubscribe_each conn (channels (app w))
                  (log (Infof ''disconnecting socket %+v'' [socketID]) w)))"
  by (simp add: Disconnect_def FindConnection_def Let_def split: option.splits)

text \<open>\<^verbatim>\<open>Disconnect\<close> never touches the channel registry, nor a counter of channels.\<close>

lemma Disconnect_channels [simp]: "channels (app (Disconnect socketID w)) = channels (app w)"
  by (simp add: Disconnect_app split: option.splits)

lemma counter_Disconnect:
  "key \<noteq> ''TotalConnections'' \<Longrightarrow>
   counter (app (Disconnect socketID w)) key = counter (app w) key"
  by (simp add: Disconnect_app counter_Stats_Add split: option.splits)

text \<open>
  After \<^verbatim>\<open>Disconnect\<close> of a registered socket, no registered channel has the
  connection in its roster, and the connection is gone from the connection registry.
\<close>

lemma Disconnect_unsubscribes_all:
  assumes "map_of (connections (app w)) socketID = Some conn"
    and "(n, c) \<in> set (channels (app w))" and "c < length (heap w)"
  shows "\<not> Channel_IsSubscribed (heap (Disconnect socketID w) ! c) conn"
proof -
  let ?w = "log (Infof ''disconnecting socket %+v'' [socketID]) w"
  have "c \<in> snd ` set (channels (app w))" using assms(2) by force
  with unsubscribe_each_heap [of conn "channels (app w)" ?w] assms(3)
  have "subscriptions (heap (unsubscribe_each conn (channels (app w)) ?w) ! c) =
          AList.delete (SocketID conn) (subscriptions (heap w ! c))"
    by simp
  then show ?thesis using assms(1)
    by (simp add: Disconnect_heap Channel_IsSubscribed_def delete_conv')
qed

lemma Disconnect_unregisters:
  assumes "map_of (connections (app w)) socketID = Some conn" and "SocketID conn = socketID"
  shows "map_of (connections (app (Disconnect socketID w))) socketID = None"
  using assms by (simp add: Disconnect_app delete_conv')

subsection \<open>The well-formedness of the state is kept by every method\<close>

lemma list_all_update:
  "list_all P al \<Longrightarrow> P (k, v) \<Longrightarrow> list_all P (AList.update k v al)"
  by (induction al) auto

lemma list_all_delete: "list_all P al \<Longrightarrow> list_all P (AList.delete k al)"
  by (simp add: AList.delete_eq list_all_iff)

lemma wf_fresh:
  "app w = NewApplication name appID key secret onlySSL enabled userEvents webHooks url \<Longrightarrow> wf w"
  by (simp add: wf_def NewApplication_def)

lemma wf_Connect: "wf w \<Longrightarrow> wf (Connect conn w)"
  by (simp add: wf_def distinct_update list_all_update)

lemma wf_AddChannel: "wf w \<Longrightarrow> c < length (heap w) \<Longrightarrow> wf (AddChannel c w)"
  by (simp add: wf_def distinct_update list_all_update)

lemma wf_RemoveChannel: "wf w \<Longrightarrow> wf (RemoveChannel c w)"
  by (simp add: wf_def distinct_delete list_all_delete)

lemma wf_heap_cong:
  assumes "wf w" and "app w' = app w" and "length (heap w') = length (heap w)"
    and "\<And>r. r < length (heap w) \<Longrightarrow> ID (heap w' ! r) = ID (heap w ! r)"
  shows "wf w'"
  using assms by (auto simp: wf_def list_all_iff)

lemma wf_Disconnect:
  assumes "wf w"
  shows "wf (Disconnect socketID w)"
proof -
  let ?w = "log (Infof ''disconnecting socket %+v'' [socketID]) w"
  have h: "length (heap (Disconnect socketID w)) = length (heap w) \<and>
           (\<forall>r. r < length (heap w) \<longrightarrow> ID (heap (Disconnect socketID w) ! r) = ID (heap w ! r))"
  proof (cases "map_of (connections (app w)) socketID")
    case None
    then show ?thesis by (simp add: Disconnect_heap)
  next
    case (Some conn)
    with unsubscribe_each_heap [of conn "channels (app w)" ?w] show ?thesis
      by (simp add: Disconnect_heap)
  qed
  have "wf (w\<lparr>app := app (Disconnect socketID w)\<rparr>)"
    using assms
    by (auto simp: wf_def Disconnect_app distinct_delete list_all_delete split: option.splits)
  then show ?thesis using h
    by (auto simp: wf_def list_all_iff)
qed

lemma wf_Application_Unsubscribe:
  assumes "wf w" and "c < length (heap w)"
  shows "wf (snd (Application_Unsubscribe c conn w))"
proof (cases "Channel_IsSubscribed (heap w ! c) conn")
  case False
  then show ?thesis using assms(1) by (simp add: Application_Unsubscribe_fails)
next
  case True
  from call_Unsubscribe_succeeds [OF True] obtain w1 where
    c: "call_Unsubscribe c conn w = (None, w1)" and a: "app w1 = app w"
    and h: "heap w1 = (heap w)[c := (heap w ! c)\<lparr>subscriptions :=
              AList.delete (SocketID conn) (subscriptions (heap w ! c))\<rparr>]"
    by blast
  have "ID (heap w1 ! r) = ID (heap w ! r)" if "r < length (heap w)" for r
    using h that by (cases "r = c") simp_all
  with assms(1) a h have "wf w1" by (intro wf_heap_cong [of w w1]) simp_all
  then show ?thesis using c by (simp add: Application_Unsubscribe_def wf_RemoveChannel)
qed

lemma wf_FindOrCreateChannelByChannelID:
  assumes "wf w"
  shows "wf (snd (FindOrCreateChannelByChannelID n w))"
proof (cases "map_of (channels (app w)) n")
  case (Some c)
  then show ?thesis using assms
    by (simp add: FindOrCreateChannelByChannelID_def FindChannelByChannelID_def)
next
  case None
  let ?w = "w\<lparr>heap := heap w @ [Channel_New n app_listeners]\<rparr>"
  have "wf ?w" using assms by (auto simp: wf_def list_all_iff nth_append)
  then have "wf (AddChannel (length (heap w)) ?w)" by (rule wf_AddChannel) simp
  then show ?thesis using None
    by (simp add: FindOrCreateChannelByChannelID_def FindChannelByChannelID_def Let_def)
qed

subsection \<open>The counters along a sequence of calls\<close>

lemma kinds_sum_step:
  assumes "kinds_sum w"
  shows "kinds_sum (step x w)"
proof (cases x)
  case (OpConnect conn)
  then show ?thesis using assms by (simp add: kinds_sum_def counter_Connect)
next
  case (OpDisconnect s)
  then show ?thesis using assms by (simp add: kinds_sum_def counter_Disconnect)
next
  case (OpAddChannel c)
  then show ?thesis using assms
    by (cases "kind (heap w ! c)")
       (simp_all add: kinds_sum_def counter_AddChannel kind_key_def algebra_simps)
next
  case (OpRemoveChannel c)
  then show ?thesis using assms
    by (cases "kind (heap w ! c)")
       (simp_all add: kinds_sum_def counter_RemoveChannel kind_key_def algebra_simps)
qed

lemma kinds_sum_run: "kinds_sum w \<Longrightarrow> kinds_sum (run ops w)"
  by (induction ops arbitrary: w) (simp_all add: kinds_sum_step)

lemma connections_match_step:
  assumes "connections_match w" and "connection_disciplined x w"
  shows "connections_match (step x w)"
proof (cases x)
  case (OpConnect conn)
  from assms OpConnect have "SocketID conn \<notin> fst ` set (connections (app w))"
    by (simp add: map_of_eq_None_iff)
  then show ?thesis using assms(1) OpConnect
    by (simp add: connections_match_def counter_Connect length_update_absent distinct_update)
next
  case (OpDisconnect s)
  show ?thesis
  proof (cases "map_of (connections (app w)) s")
    case None
    then show ?thesis using assms(1) OpDisconnect
      by (simp add: connections_match_def Disconnect_app)
  next
    case found: (Some conn)
    show ?thesis
    proof (cases "map_of (connections (app w)) (SocketID conn)")
      case None
      then show ?thesis using assms(1) OpDisconnect found
        by (simp add: connections_match_def Disconnect_app)
    next
      case (Some old)
      then have k: "SocketID conn \<in> fst ` set (connections (app w))"
        by (rule map_of_Some_key)
      from assms(1) have d: "distinct (map fst (connections (app w)))"
        by (simp add: connections_match_def)
      from length_delete_present [OF d k]
      have "(of_nat (length (connections (app w))) :: 64 word) =
              of_nat (length (AList.delete (SocketID conn) (connections (app w)))) + 1"
        by (metis of_nat_Suc add.commute)
      then show ?thesis using assms(1) OpDisconnect Some found d
        by (simp add: connections_match_def Disconnect_app counter_Stats_Add distinct_delete)
    qed
  qed
next
  case (OpAddChannel c)
  then show ?thesis using assms(1)
    by (simp add: connections_match_def counter_AddChannel)
next
  case (OpRemoveChannel c)
  then show ?thesis using assms(1)
    by (simp add: connections_match_def counter_RemoveChannel)
qed

lemma channels_match_step:
  assumes "channels_match w" and "channel_disciplined x w"
  shows "channels_match (step x w)"
proof (cases x)
  case (OpConnect conn)
  then show ?thesis using assms(1)
    by (simp add: channels_match_def counter_Connect)
next
  case (OpDisconnect s)
  then show ?thesis using assms(1)
    by (simp add: channels_match_def counter_Disconnect)
next
  case (OpAddChannel c)
  from assms OpAddChannel have "ID (heap w ! c) \<notin> fst ` set (channels (app w))"
    by (simp add: map_of_eq_None_iff)
  then show ?thesis using assms(1) OpAddChannel
    by (simp add: channels_match_def counter_AddChannel length_update_absent distinct_update)
next
  case (OpRemoveChannel c)
  from assms OpRemoveChannel have k: "ID (heap w ! c) \<in> fst ` set (channels (app w))"
    by (simp add: map_of_eq_None_iff)
  from assms(1) have d: "distinct (map fst (channels (app w)))"
    by (simp add: channels_match_def)
  from length_delete_present [OF d k]
  have "(of_nat (length (channels (app w))) :: 64 word) =
          of_nat (length (AList.delete (ID (heap w ! c)) (channels (app w)))) + 1"
    by (metis of_nat_Suc add.commute)
  then show ?thesis using assms(1) OpRemoveChannel d
    by (simp add: channels_match_def counter_RemoveChannel distinct_delete)
qed

lemma connections_match_run:
  "connections_match w \<Longrightarrow> connections_disciplined ops w \<Longrightarrow> connections_match (run ops w)"
  by (induction ops arbitrary: w) (simp_all add: connections_match_step)

lemma channels_match_run:
  "channels_match w \<Longrightarrow> channels_disciplined ops w \<Longrightarrow> channels_match (run ops w)"
  by (induction ops arbitrary: w) (simp_all add: channels_match_step)

lemma fresh_counters:
  assumes "app w = NewApplication name appID key secret onlySSL enabled userEvents webHooks url"
  shows "kinds_sum w" and "connections_match w" and "channels_match w"
  using assms
  by (simp_all add: kinds_sum_def connections_match_def channels_match_def
        NewApplication_def counter_def)

lemma RemoveChannel_funpow:
  "heap ((RemoveChannel c ^^ n) w) = heap w \<and>
   counter (app ((RemoveChannel c ^^ n) w)) ''TotalChannels'' =
     counter (app w) ''TotalChannels'' - of_nat n \<and>
   counter (app ((RemoveChannel c ^^ n) w)) (kind_key (kind (heap w ! c))) =
     counter (app w) (kind_key (kind (heap w ! c))) - of_nat n \<and>
   (ID (heap w ! c) \<notin> fst ` set (channels (app w)) \<longrightarrow>
      channels (app ((RemoveChannel c ^^ n) w)) = channels (app w))"
  by (induction n) (simp_all add: counter_RemoveChannel)

subsection \<open>The pointers a filter query returns\<close>

lemma snd_inj_on_channels:
  assumes "list_all (\<lambda>(n, c). c < length h \<and> ID (h ! c) = n) chans"
  shows "inj_on snd (set chans)"
proof (rule inj_onI)
  fix x y assume x: "x \<in> set chans" and y: "y \<in> set chans" and e: "snd x = snd y"
  from assms x have "ID (h ! snd x) = fst x" by (auto simp: list_all_iff)
  moreover from assms y have "ID (h ! snd y) = fst y" by (auto simp: list_all_iff)
  ultimately show "x = y" using e by (simp add: prod_eq_iff)
qed

lemma distinct_refs:
  assumes "wf w"
  shows "distinct (map snd (channels (app w)))"
proof -
  from assms have d: "distinct (map fst (channels (app w)))"
    and l: "list_all (\<lambda>(n, c). c < length (heap w) \<and> ID (heap w ! c) = n) (channels (app w))"
    by (simp_all add: wf_def)
  from d have "distinct (channels (app w))" by (simp add: distinct_map)
  with snd_inj_on_channels [OF l] show ?thesis by (simp add: distinct_map)
qed

lemma set_filtered:
  assumes "distinct (map fst chans)"
  shows "set (map snd (filter (\<lambda>(n, c). P c) chans)) =
           {c. \<exists>n. map_of chans n = Some c \<and> P c}"
  using assms by (auto simp: image_iff)

subsection \<open>Evaluating the example states\<close>

lemmas ex_defs =
  conn1_def conn2_def conn1'_def unplugged_def Connection_New_def room_def chat_def lobby_def demo_def fresh_def busy_def
  NewApplication_def

lemmas eval_defs =
  Disconnect_def FindConnection_def FindChannelByChannelID_def Let_def log_def Stats_Add_def
  counter_def call_Unsubscribe_def Channel_Unsubscribe_def Channel_IsSubscribed_def
  Channel_IsOccupied_def fire_def trigger_def app_listeners_def AList.delete_eq Connect_def
  AddChannel_def RemoveChannel_def kind_counters_def Channel_IsPresence_def
  Channel_IsPrivate_def Channel_IsPublic_def Application_Unsubscribe_def

lemma wf_busy: "wf busy"
  by (simp add: wf_def ex_defs)

text \<open>
  The state \<open>busy\<close> is what calls disciplined for both registries make of the fresh
  Application: both sockets connect and the three channels are added. Only the log
  differs.
\<close>

lemma busy_reached:
  "connections_disciplined
     [OpConnect conn1, OpConnect conn2, OpAddChannel 0, OpAddChannel 1, OpAddChannel 2] fresh \<and>
   channels_disciplined
     [OpConnect conn1, OpConnect conn2, OpAddChannel 0, OpAddChannel 1, OpAddChannel 2] fresh \<and>
   run [OpConnect conn1, OpConnect conn2, OpAddChannel 0, OpAddChannel 1, OpAddChannel 2] fresh =
     busy\<lparr>glog := glog (run [OpConnect conn1, OpConnect conn2, OpAddChannel 0, OpAddChannel 1,
                                OpAddChannel 2] fresh)\<rparr>"
  by (simp add: ex_defs eval_defs fun_eq_iff)

section \<open>The claims\<close>

text \<open>
  C1. Disconnect removes the connection from every Channel it belonged to, and every
  Channel left empty by this is removed from the channel registry, so that a later
  FindChannelByChannelID on its identifier returns NotFound.

  The first half holds (lemma \<open>Disconnect_unsubscribes_all\<close>). The second does not:
  the loop of Disconnect calls the Unsubscribe of the Channel, not the Unsubscribe of the
  Application, which is the method that removes a channel left empty, and Disconnect
  calls RemoveChannel nowhere. In the state \<open>busy\<close> the socket sock-1 is the only
  member of presence-room. After Disconnect of sock-1 the channel is unoccupied, and
  FindChannelByChannelID still returns it; TotalChannels still counts it. The two
  listeners of the channel have fired, and only triggered webhooks.
\<close>

theorem Disconnect_keeps_empty_channel:
  "map_of (connections (app busy)) ''sock-1'' = Some conn1 \<and>
   Channel_IsSubscribed (heap busy ! 0) conn1 \<and>
   Channel_IsOccupied (heap (Disconnect ''sock-1'' busy) ! 0) = False \<and>
   fst (FindChannelByChannelID ''presence-room'' (Disconnect ''sock-1'' busy)) = Inr 0 \<and>
   channels (app (Disconnect ''sock-1'' busy)) = channels (app busy) \<and>
   counter (app (Disconnect ''sock-1'' busy)) ''TotalChannels'' = 3 \<and>
   connections (app (Disconnect ''sock-1'' busy)) = [(''sock-2'', conn2)] \<and>
   webhooks (Disconnect ''sock-1'' busy) =
     [(TriggerMemberRemovedHook, ''presence-room'', ''sock-1''),
      (TriggerChannelVacatedHook, ''presence-room'', ''sock-1'')]"
  by (simp add: ex_defs eval_defs)

text \<open>
  C2, as it stands, fails: two Connect calls with the same Connection on a fresh
  Application leave one entry in the connection registry and TotalConnections at 2.
\<close>

theorem counters_drift_counterexample:
  "app fresh = NewApplication ''demo'' ''1'' ''key'' ''secret'' False True True True [] \<and>
   length (connections (app (run [OpConnect conn1, OpConnect conn1] fresh))) = 1 \<and>
   counter (app (run [OpConnect conn1, OpConnect conn1] fresh)) ''TotalConnections'' = 2 \<and>
   counter (app (run [OpConnect conn1, OpConnect conn1] fresh)) ''TotalConnections'' \<noteq>
     of_nat (length (connections (app (run [OpConnect conn1, OpConnect conn1] fresh))))"
proof -
  have "counter (app fresh) ''TotalConnections'' = 0"
    by (simp add: fresh_def demo_def NewApplication_def counter_def)
  then have "counter (app (run [OpConnect conn1, OpConnect conn1] fresh)) ''TotalConnections'' = 2"
    by (simp add: counter_Connect)
  moreover have "length (connections (app (run [OpConnect conn1, OpConnect conn1] fresh))) = 1"
    by (simp add: fresh_def demo_def NewApplication_def conn1_def)
  moreover have "app fresh = NewApplication ''demo'' ''1'' ''key'' ''secret'' False True True True []"
    by (simp add: fresh_def demo_def)
  ultimately show ?thesis by simp
qed

text \<open>
  C2, amended. In every state reached from a fresh Application by a sequence of Connect,
  Disconnect, AddChannel and RemoveChannel calls, the counters of presence, private and
  public channels sum to TotalChannels (in 64-bit arithmetic). TotalConnections is the
  number of entries of the connection registry when every Connect of the sequence was
  for a socket identifier not registered at that moment, whatever the AddChannel and
  RemoveChannel calls were. TotalChannels is the number of entries of the channel
  registry when every AddChannel of the sequence was for a channel identifier not
  registered at that moment and every RemoveChannel for a channel identifier registered
  at that moment, whatever the Connect calls were.
\<close>

theorem counters_invariant:
  assumes "app w = NewApplication name appID key secret onlySSL enabled userEvents webHooks url"
  shows "kinds_sum (run ops w) \<and>
         (connections_disciplined ops w \<longrightarrow> connections_match (run ops w)) \<and>
         (channels_disciplined ops w \<longrightarrow> channels_match (run ops w))"
  using fresh_counters [OF assms]
  by (simp add: kinds_sum_run connections_match_run channels_match_run)

text \<open>
  Two sequences from the fresh Application. The first connects the same Connection twice
  and adds two channels: it is disciplined for the channel registry only, and
  TotalChannels is 2, the number of channels registered. The second connects two sockets
  and adds the same channel twice: it is disciplined for the connection registry only,
  and TotalConnections is 2, the number of connections registered.
\<close>

theorem counters_invariant_witness:
  "channels_disciplined [OpConnect conn1, OpConnect conn1, OpAddChannel 0, OpAddChannel 1] fresh \<and>
   channels_match (run [OpConnect conn1, OpConnect conn1, OpAddChannel 0, OpAddChannel 1] fresh) \<and>
   kinds_sum (run [OpConnect conn1, OpConnect conn1, OpAddChannel 0, OpAddChannel 1] fresh) \<and>
   counter (app (run [OpConnect conn1, OpConnect conn1, OpAddChannel 0, OpAddChannel 1] fresh))
     ''TotalChannels'' = 2 \<and>
   length (channels (app (run [OpConnect conn1, OpConnect conn1, OpAddChannel 0, OpAddChannel 1]
     fresh))) = 2 \<and>
   connections_disciplined
     [OpConnect conn1, OpConnect conn2, OpAddChannel 0, OpAddChannel 0] fresh \<and>
   connections_match (run [OpConnect conn1, OpConnect conn2, OpAddChannel 0, OpAddChannel 0] fresh) \<and>
   counter (app (run [OpConnect conn1, OpConnect conn2, OpAddChannel 0, OpAddChannel 0] fresh))
     ''TotalConnections'' = 2 \<and>
   length (connections (app (run [OpConnect conn1, OpConnect conn2, OpAddChannel 0, OpAddChannel 0]
     fresh))) = 2"
proof -
  have a: "app fresh = NewApplication ''demo'' ''1'' ''key'' ''secret'' False True True True []"
    by (simp add: fresh_def demo_def)
  have p: "channels_disciplined
             [OpConnect conn1, OpConnect conn1, OpAddChannel 0, OpAddChannel 1] fresh"
    "connections_disciplined
       [OpConnect conn1, OpConnect conn2, OpAddChannel 0, OpAddChannel 0] fresh"
    by (simp_all add: ex_defs eval_defs)
  have l: "length (channels (app (run [OpConnect conn1, OpConnect conn1, OpAddChannel 0,
             OpAddChannel 1] fresh))) = 2"
    "length (connections (app (run [OpConnect conn1, OpConnect conn2, OpAddChannel 0,
             OpAddChannel 0] fresh))) = 2"
    by (simp_all add: ex_defs)
  from counters_invariant [OF a,
      of "[OpConnect conn1, OpConnect conn1, OpAddChannel 0, OpAddChannel 1]"] p(1)
  have c: "kinds_sum (run [OpConnect conn1, OpConnect conn1, OpAddChannel 0, OpAddChannel 1] fresh)"
    "channels_match (run [OpConnect conn1, OpConnect conn1, OpAddChannel 0, OpAddChannel 1] fresh)"
    by blast+
  from counters_invariant [OF a,
      of "[OpConnect conn1, OpConnect conn2, OpAddChannel 0, OpAddChannel 0]"] p(2)
  have d: "connections_match
             (run [OpConnect conn1, OpConnect conn2, OpAddChannel 0, OpAddChannel 0] fresh)"
    by blast
  from c(2) l(1)
  have "counter (app (run [OpConnect conn1, OpConnect conn1, OpAddChannel 0, OpAddChannel 1]
          fresh)) ''TotalChannels'' = 2"
    unfolding channels_match_def by simp
  moreover from d l(2)
  have "counter (app (run [OpConnect conn1, OpConnect conn2, OpAddChannel 0, OpAddChannel 0]
          fresh)) ''TotalConnections'' = 2"
    unfolding connections_match_def by simp
  ultimately show ?thesis using p l c d by simp
qed

text \<open>
  C3, as it stands, fails: RemoveChannel has no test of occupancy. In the state
  \<open>busy\<close> the channel private-chat has two members; RemoveChannel deletes it from the
  registry all the same, and its roster is as it was.
\<close>

theorem RemoveChannel_occupied_counterexample:
  "Channel_IsOccupied (heap busy ! 1) \<and>
   fst (FindChannelByChannelID ''private-chat'' busy) = Inr 1 \<and>
   fst (FindChannelByChannelID ''private-chat'' (RemoveChannel 1 busy)) =
     Inl (errors_New ''channel does not exists'') \<and>
   Channel_IsOccupied (heap (RemoveChannel 1 busy) ! 1)"
  by (simp add: ex_defs FindChannelByChannelID_def Channel_IsOccupied_def AList.delete_eq)

text \<open>
  C3, amended. RemoveChannel makes no test of occupancy. Whatever the roster of the
  channel, after the call the identifier of the channel is not registered and the other
  entries of the registry are as they were, TotalChannels and the counter of the kind of
  the channel are one less (in 64-bit arithmetic) and every other counter is as it was,
  and no Channel object and no connection entry has changed. The test is made by the
  caller: Application.Unsubscribe calls RemoveChannel only when the channel is
  unoccupied after Channel.Unsubscribe, so when the channel is occupied after
  Application.Unsubscribe, the Application (registries and counters) is as it was.
\<close>

theorem RemoveChannel_no_occupancy_check:
  "map_of (channels (app (RemoveChannel c w))) =
     (map_of (channels (app w)))(ID (heap w ! c) := None) \<and>
   fst (FindChannelByChannelID (ID (heap w ! c)) (RemoveChannel c w)) =
     Inl (errors_New ''channel does not exists'') \<and>
   (\<forall>key. counter (app (RemoveChannel c w)) key =
      (if key = ''TotalChannels'' \<or> key = kind_key (kind (heap w ! c))
       then counter (app w) key - 1 else counter (app w) key)) \<and>
   heap (RemoveChannel c w) = heap w \<and>
   connections (app (RemoveChannel c w)) = connections (app w) \<and>
   (c < length (heap w) \<longrightarrow>
    Channel_IsOccupied (heap (snd (Application_Unsubscribe c conn w)) ! c) \<longrightarrow>
      app (snd (Application_Unsubscribe c conn w)) = app w)"
proof -
  have "app (snd (Application_Unsubscribe c conn w)) = app w"
    if lt: "c < length (heap w)"
      and oc: "Channel_IsOccupied (heap (snd (Application_Unsubscribe c conn w)) ! c)"
  proof (cases "Channel_IsSubscribed (heap w ! c) conn")
    case False
    then show ?thesis by (simp add: Application_Unsubscribe_fails)
  next
    case True
    from Application_Unsubscribe_succeeds [OF True lt] obtain w1 where
      "app w1 = app w"
      "Application_Unsubscribe c conn w =
             (None, if Channel_IsOccupied (heap w1 ! c) then w1 else RemoveChannel c w1)"
      by blast
    with oc show ?thesis by (cases "Channel_IsOccupied (heap w1 ! c)") simp_all
  qed
  then show ?thesis
    by (simp add: FindChannelByChannelID_def delete_conv' counter_RemoveChannel)
qed

theorem RemoveChannel_no_occupancy_check_witness:
  "1 < length (heap busy) \<and>
   Channel_IsOccupied (heap busy ! 1) \<and>
   fst (FindChannelByChannelID ''private-chat'' (RemoveChannel 1 busy)) =
     Inl (errors_New ''channel does not exists'') \<and>
   counter (app (RemoveChannel 1 busy)) ''TotalChannels'' = 2 \<and>
   counter (app (RemoveChannel 1 busy)) ''TotalPrivateChannels'' = 0 \<and>
   counter (app (RemoveChannel 1 busy)) ''TotalPresenceChannels'' = 1 \<and>
   Channel_IsOccupied (heap (snd (Application_Unsubscribe 1 conn1 busy)) ! 1) \<and>
   app (snd (Application_Unsubscribe 1 conn1 busy)) = app busy"
proof -
  have l: "1 < length (heap busy)" and i: "ID (heap busy ! 1) = ''private-chat''"
    and k: "kind_key (kind (heap busy ! 1)) = ''TotalPrivateChannels''"
    and b: "Channel_IsOccupied (heap busy ! 1)"
    and z: "counter (app busy) ''TotalChannels'' = 3"
      "counter (app busy) ''TotalPrivateChannels'' = 1"
      "counter (app busy) ''TotalPresenceChannels'' = 1"
    by (simp_all add: ex_defs kind_key_def counter_def Channel_IsOccupied_def)
  have o: "Channel_IsOccupied (heap (snd (Application_Unsubscribe 1 conn1 busy)) ! 1)"
    by (simp add: ex_defs eval_defs)
  from RemoveChannel_no_occupancy_check
      [where w = busy and c = 1 and conn = conn1, unfolded i k]
  have f: "fst (FindChannelByChannelID ''private-chat'' (RemoveChannel 1 busy)) =
             Inl (errors_New ''channel does not exists'')"
    and c: "\<And>key. counter (app (RemoveChannel 1 busy)) key =
      (if key = ''TotalChannels'' \<or> key = ''TotalPrivateChannels''
       then counter (app busy) key - 1 else counter (app busy) key)"
    and u: "1 < length (heap busy) \<longrightarrow>
      Channel_IsOccupied (heap (snd (Application_Unsubscribe 1 conn1 busy)) ! 1) \<longrightarrow>
      app (snd (Application_Unsubscribe 1 conn1 busy)) = app busy"
    by blast+
  from u l o have "app (snd (Application_Unsubscribe 1 conn1 busy)) = app busy" by blast
  moreover have "counter (app (RemoveChannel 1 busy)) ''TotalChannels'' = 2"
    "counter (app (RemoveChannel 1 busy)) ''TotalPrivateChannels'' = 0"
    "counter (app (RemoveChannel 1 busy)) ''TotalPresenceChannels'' = 1"
    using c [of "''TotalChannels''"] c [of "''TotalPrivateChannels''"]
      c [of "''TotalPresenceChannels''"] z
    by simp_all
  ultimately show ?thesis using l b o f by simp
qed

text \<open>
  C4. For every state and every socket identifier that is not in the connection
  registry, Disconnect returns (it has no result, so no error) and leaves the state as it
  was: connection registry, channel registry, every Channel object, all counters and the
  webhooks triggered. Only the log has two more lines.
\<close>

theorem Disconnect_unknown_socket:
  "map_of (connections (app w)) socketID = None \<Longrightarrow>
   Disconnect socketID w =
     w\<lparr>glog := glog w @ [Infof ''disconnecting socket %+v'' [socketID],
                          Infof ''socket not found, %+v'' [''connection not found'']]\<rparr>"
  by (simp add: Disconnect_def FindConnection_def log_def)

theorem Disconnect_unknown_socket_witness:
  "map_of (connections (app busy)) ''sock-9'' = None \<and>
   app (Disconnect ''sock-9'' busy) = app busy \<and>
   heap (Disconnect ''sock-9'' busy) = heap busy \<and>
   webhooks (Disconnect ''sock-9'' busy) = webhooks busy \<and>
   glog (Disconnect ''sock-9'' busy) =
     [Infof ''disconnecting socket %+v'' [''sock-9''],
      Infof ''socket not found, %+v'' [''connection not found'']]"
proof -
  have n: "map_of (connections (app busy)) ''sock-9'' = None"
    by (simp add: busy_def)
  have g: "glog busy = []" by (simp add: busy_def)
  show ?thesis using n g Disconnect_unknown_socket [OF n] by simp
qed

text \<open>
  C5. Application.Unsubscribe returns the error of Channel.Unsubscribe when that call
  fails, and the state is then as it was (channel registry and counters included). When
  Channel.Unsubscribe succeeds, Application.Unsubscribe returns no error; if the channel
  is occupied afterwards the Application is as it was, and if it is unoccupied
  RemoveChannel has run and the identifier of the channel is not registered. So a
  channel that was registered under its identifier is removed from the registry if and
  only if it is unoccupied afterwards.
\<close>

theorem Application_Unsubscribe_spec:
  assumes "c < length (heap w)"
  shows
    "(fst (call_Unsubscribe c conn w) \<noteq> None \<longrightarrow>
        Application_Unsubscribe c conn w = (fst (call_Unsubscribe c conn w), w)) \<and>
     (fst (call_Unsubscribe c conn w) = None \<longrightarrow>
        fst (Application_Unsubscribe c conn w) = None \<and>
        (Channel_IsOccupied (heap (snd (call_Unsubscribe c conn w)) ! c) \<longrightarrow>
           snd (Application_Unsubscribe c conn w) = snd (call_Unsubscribe c conn w) \<and>
           app (snd (Application_Unsubscribe c conn w)) = app w) \<and>
        (\<not> Channel_IsOccupied (heap (snd (call_Unsubscribe c conn w)) ! c) \<longrightarrow>
           snd (Application_Unsubscribe c conn w) =
             RemoveChannel c (snd (call_Unsubscribe c conn w)) \<and>
           map_of (channels (app (snd (Application_Unsubscribe c conn w)))) (ID (heap w ! c)) =
             None) \<and>
        (map_of (channels (app w)) (ID (heap w ! c)) = Some c \<longrightarrow>
           (map_of (channels (app (snd (Application_Unsubscribe c conn w)))) (ID (heap w ! c)) =
              None) =
           (\<not> Channel_IsOccupied (heap (snd (Application_Unsubscribe c conn w)) ! c))))"
proof (cases "Channel_IsSubscribed (heap w ! c) conn")
  case False
  then show ?thesis
    by (simp add: call_Unsubscribe_fails Application_Unsubscribe_fails)
next
  case True
  from Application_Unsubscribe_succeeds [OF True assms] obtain w1 where
    "call_Unsubscribe c conn w = (None, w1)" "app w1 = app w"
    "ID (heap w1 ! c) = ID (heap w ! c)"
    "Application_Unsubscribe c conn w =
       (None, if Channel_IsOccupied (heap w1 ! c) then w1 else RemoveChannel c w1)"
    by blast
  then show ?thesis by (simp add: delete_conv')
qed

theorem Application_Unsubscribe_spec_witness:
  "0 < length (heap busy) \<and> 1 < length (heap busy) \<and> 2 < length (heap busy) \<and>
   Application_Unsubscribe 2 conn1 busy = (Some ErrNotSubscribed, busy) \<and>
   fst (Application_Unsubscribe 1 conn1 busy) = None \<and>
   Channel_IsOccupied (heap (snd (Application_Unsubscribe 1 conn1 busy)) ! 1) \<and>
   app (snd (Application_Unsubscribe 1 conn1 busy)) = app busy \<and>
   fst (Application_Unsubscribe 0 conn1 busy) = None \<and>
   Channel_IsOccupied (heap (snd (Application_Unsubscribe 0 conn1 busy)) ! 0) = False \<and>
   map_of (channels (app (snd (Application_Unsubscribe 0 conn1 busy)))) ''presence-room'' = None"
proof -
  have l: "0 < length (heap busy)" "1 < length (heap busy)" "2 < length (heap busy)"
    by (simp_all add: ex_defs)
  have f: "fst (call_Unsubscribe 2 conn1 busy) = Some ErrNotSubscribed"
    "fst (call_Unsubscribe 1 conn1 busy) = None"
    "fst (call_Unsubscribe 0 conn1 busy) = None"
    by (simp_all add: ex_defs call_Unsubscribe_def Channel_Unsubscribe_def)
  have o: "Channel_IsOccupied (heap (snd (call_Unsubscribe 1 conn1 busy)) ! 1)"
    "\<not> Channel_IsOccupied (heap (snd (call_Unsubscribe 0 conn1 busy)) ! 0)"
    by (simp_all add: ex_defs eval_defs)
  have i: "ID (heap busy ! 0) = ''presence-room''"
    "map_of (channels (app busy)) ''presence-room'' = Some 0"
    by (simp_all add: ex_defs)
  from Application_Unsubscribe_spec [OF l(3), of conn1] f(1)
  have A: "Application_Unsubscribe 2 conn1 busy = (Some ErrNotSubscribed, busy)"
    by simp
  from Application_Unsubscribe_spec [OF l(2), of conn1] f(2) o(1)
  have B: "fst (Application_Unsubscribe 1 conn1 busy) = None"
    "snd (Application_Unsubscribe 1 conn1 busy) = snd (call_Unsubscribe 1 conn1 busy)"
    "app (snd (Application_Unsubscribe 1 conn1 busy)) = app busy"
    by blast+
  from Application_Unsubscribe_spec [OF l(1), of conn1, unfolded i(1)] f(3) o(2) i(2)
  have C: "fst (Application_Unsubscribe 0 conn1 busy) = None"
    "map_of (channels (app (snd (Application_Unsubscribe 0 conn1 busy)))) ''presence-room'' = None"
    "\<not> Channel_IsOccupied (heap (snd (Application_Unsubscribe 0 conn1 busy)) ! 0)"
    by blast+
  from B(2) o(1)
  have "Channel_IsOccupied (heap (snd (Application_Unsubscribe 1 conn1 busy)) ! 1)"
    by simp
  with l A B C show ?thesis by simp
qed

text \<open>
  C6. If a channel is registered under the identifier, FindOrCreateChannelByChannelID
  returns that pointer and leaves the state as it was. Otherwise it returns a pointer to
  a new Channel object with this identifier, no member and the five listeners (Occupied,
  Vacated, MemberAdded, MemberRemoved, ClientEvent, each calling the trigger of the
  Application of the same name); the object is registered under the identifier, the
  other entries of the registry are as they were, and FindChannelByChannelID on the
  identifier returns the new pointer.
\<close>

theorem FindOrCreateChannelByChannelID_spec:
  "(\<forall>c. map_of (channels (app w)) n = Some c \<longrightarrow>
        FindOrCreateChannelByChannelID n w = (c, w)) \<and>
   (map_of (channels (app w)) n = None \<longrightarrow>
      (\<exists>w'. FindOrCreateChannelByChannelID n w = (length (heap w), w') \<and>
         heap w' = heap w @ [\<lparr>ID = n, kind = kind_of n, subscriptions = [],
           listeners = [WithChannelOccupiedListener TriggerChannelOccupiedHook,
                        WithChannelVacatedListener TriggerChannelVacatedHook,
                        WithMemberAddedListener TriggerMemberAddedHook,
                        WithMemberRemovedListener TriggerMemberRemovedHook,
                        WithClientEventListener TriggerClientEventHook]\<rparr>] \<and>
         map_of (channels (app w')) = (map_of (channels (app w)))(n \<mapsto> length (heap w)) \<and>
         fst (FindChannelByChannelID n w') = Inr (length (heap w))))"
  by (simp add: FindOrCreateChannelByChannelID_def FindChannelByChannelID_def Let_def
        Channel_New_def app_listeners_def update_conv')

theorem FindOrCreateChannelByChannelID_spec_witness:
  "map_of (channels (app busy)) ''presence-room'' = Some 0 \<and>
   FindOrCreateChannelByChannelID ''presence-room'' busy = (0, busy) \<and>
   map_of (channels (app busy)) ''private-hall'' = None \<and>
   fst (FindOrCreateChannelByChannelID ''private-hall'' busy) = 3 \<and>
   heap (snd (FindOrCreateChannelByChannelID ''private-hall'' busy)) ! 3 =
     \<lparr>ID = ''private-hall'', kind = Private, subscriptions = [],
      listeners = [WithChannelOccupiedListener TriggerChannelOccupiedHook,
                   WithChannelVacatedListener TriggerChannelVacatedHook,
                   WithMemberAddedListener TriggerMemberAddedHook,
                   WithMemberRemovedListener TriggerMemberRemovedHook,
                   WithClientEventListener TriggerClientEventHook]\<rparr> \<and>
   fst (FindChannelByChannelID ''private-hall''
          (snd (FindOrCreateChannelByChannelID ''private-hall'' busy))) = Inr 3"
proof -
  have a: "map_of (channels (app busy)) ''presence-room'' = Some 0"
    and b: "map_of (channels (app busy)) ''private-hall'' = None"
    and l: "length (heap busy) = 3"
    and k: "kind_of ''private-hall'' = Private"
    by (simp_all add: ex_defs kind_of_def)
  from FindOrCreateChannelByChannelID_spec [of busy "''presence-room''"] a
  have 1: "FindOrCreateChannelByChannelID ''presence-room'' busy = (0, busy)" by simp
  from FindOrCreateChannelByChannelID_spec [of busy "''private-hall''"] b l k
  obtain w' where "FindOrCreateChannelByChannelID ''private-hall'' busy = (3, w')"
    "heap w' ! 3 = \<lparr>ID = ''private-hall'', kind = Private, subscriptions = [],
      listeners = [WithChannelOccupiedListener TriggerChannelOccupiedHook,
                   WithChannelVacatedListener TriggerChannelVacatedHook,
                   WithMemberAddedListener TriggerMemberAddedHook,
                   WithMemberRemovedListener TriggerMemberRemovedHook,
                   WithClientEventListener TriggerClientEventHook]\<rparr>"
    "fst (FindChannelByChannelID ''private-hall'' w') = Inr 3"
    by (auto simp: nth_append)
  with a b 1 show ?thesis by simp
qed

text \<open>
  C7, as it stands, fails: Publish has no recover. A Connection that New made with a nil
  Socket panics in Publish on the method call, and a panic of WriteJSON passes through
  Publish; in both cases the panic reaches the caller.
\<close>

theorem Publish_panics_counterexample:
  "snd (snd (Connection_Publish (\<lambda>s m. Returns None) unplugged ''hello'')) =
     Panics ''runtime error: invalid memory address or nil pointer dereference'' \<and>
   snd (snd (Connection_Publish (\<lambda>s m. Panics ''use of closed network connection'') conn1
               ''hello'')) = Panics ''use of closed network connection''"
  by (simp add: Connection_Publish_def unplugged_def Connection_New_def conn1_def
        nil_dereference_def)

text \<open>
  C7, amended. For every Connection and every message, the fields of the Connection are
  after Publish what they were before. When the Socket is not nil and WriteJSON returns,
  Publish returns and hands no error to its caller: an error of WriteJSON is logged in
  one error line with its text and goes no further, and when WriteJSON returns nil
  nothing is logged. Publish does not recover: when WriteJSON panics, the same panic
  reaches the caller of Publish, and when the Socket is nil the nil dereference does;
  nothing is logged then.
\<close>

theorem Publish_swallows_write_error:
  "fst (Connection_Publish WriteJSON conn m) = conn \<and>
   (\<forall>s. Socket conn = Some s \<longrightarrow> WriteJSON s m = Returns None \<longrightarrow>
      Connection_Publish WriteJSON conn m = (conn, [], Returns ())) \<and>
   (\<forall>s err. Socket conn = Some s \<longrightarrow> WriteJSON s m = Returns (Some err) \<longrightarrow>
      Connection_Publish WriteJSON conn m =
        (conn, [Errorf ''error writing json into Socket, %+v'' [Error err]], Returns ())) \<and>
   (\<forall>s p. Socket conn = Some s \<longrightarrow> WriteJSON s m = Panics p \<longrightarrow>
      Connection_Publish WriteJSON conn m = (conn, [], Panics p)) \<and>
   (Socket conn = None \<longrightarrow>
      Connection_Publish WriteJSON conn m = (conn, [], Panics nil_dereference))"
  by (simp add: Connection_Publish_def split: option.splits call.splits)

theorem Publish_swallows_write_error_witness:
  "Socket conn1 = Some 1 \<and>
   Connection_Publish (\<lambda>s m. Returns (Some (errors_New ''broken pipe''))) conn1 ''hello'' =
     (conn1, [Errorf ''error writing json into Socket, %+v'' [''broken pipe'']], Returns ()) \<and>
   Connection_Publish (\<lambda>s m. Returns None) conn1 ''hello'' = (conn1, [], Returns ()) \<and>
   Connection_Publish (\<lambda>s m. Panics ''use of closed network connection'') conn1 ''hello'' =
     (conn1, [], Panics ''use of closed network connection'') \<and>
   Socket unplugged = None \<and>
   Connection_Publish (\<lambda>s m. Returns None) unplugged ''hello'' =
     (unplugged, [], Panics nil_dereference)"
proof -
  have s: "Socket conn1 = Some 1" "Socket unplugged = None"
    by (simp_all add: conn1_def unplugged_def Connection_New_def)
  from Publish_swallows_write_error
      [of "\<lambda>s m. Returns (Some (errors_New ''broken pipe''))" conn1 "''hello''"] s(1)
  have 1: "Connection_Publish (\<lambda>s m. Returns (Some (errors_New ''broken pipe''))) conn1
             ''hello'' =
     (conn1, [Errorf ''error writing json into Socket, %+v'' [''broken pipe'']], Returns ())"
    by simp
  from Publish_swallows_write_error [of "\<lambda>s m. Returns None" conn1 "''hello''"] s(1)
  have 2: "Connection_Publish (\<lambda>s m. Returns None) conn1 ''hello'' = (conn1, [], Returns ())"
    by simp
  from Publish_swallows_write_error
      [of "\<lambda>s m. Panics ''use of closed network connection''" conn1 "''hello''"] s(1)
  have 3: "Connection_Publish (\<lambda>s m. Panics ''use of closed network connection'') conn1
             ''hello'' = (conn1, [], Panics ''use of closed network connection'')"
    by simp
  from Publish_swallows_write_error [of "\<lambda>s m. Returns None" unplugged "''hello''"] s(2)
  have 4: "Connection_Publish (\<lambda>s m. Returns None) unplugged ''hello'' =
     (unplugged, [], Panics nil_dereference)"
    by simp
  from s 1 2 3 4 show ?thesis by simp
qed

text \<open>
  C8. In every well-formed state each of the four filter queries leaves the state as it
  was and returns a list without repetition. Channels returns exactly the pointers of
  the channel registry; PresenceChannels, PrivateChannels and PublicChannels return
  exactly the registered pointers whose Channel has the kind presence, private and
  public.
\<close>

theorem filter_queries:
  assumes "wf w"
  shows "snd (Channels w) = w \<and> snd (PresenceChannels w) = w \<and>
         snd (PrivateChannels w) = w \<and> snd (PublicChannels w) = w \<and>
         distinct (fst (Channels w)) \<and> distinct (fst (PresenceChannels w)) \<and>
         distinct (fst (PrivateChannels w)) \<and> distinct (fst (PublicChannels w)) \<and>
         set (fst (Channels w)) = {c. \<exists>n. map_of (channels (app w)) n = Some c} \<and>
         set (fst (PresenceChannels w)) =
           {c. \<exists>n. map_of (channels (app w)) n = Some c \<and> kind (heap w ! c) = Presence} \<and>
         set (fst (PrivateChannels w)) =
           {c. \<exists>n. map_of (channels (app w)) n = Some c \<and> kind (heap w ! c) = Private} \<and>
         set (fst (PublicChannels w)) =
           {c. \<exists>n. map_of (channels (app w)) n = Some c \<and> kind (heap w ! c) = Public}"
proof -
  from assms have d: "distinct (map fst (channels (app w)))" by (simp add: wf_def)
  have r: "distinct (map snd (channels (app w)))" by (rule distinct_refs [OF assms])
  have a: "set (map snd (channels (app w))) = {c. \<exists>n. map_of (channels (app w)) n = Some c}"
    using set_filtered [OF d, of "\<lambda>c. True"] by simp
  show ?thesis
    using r a set_filtered [OF d, of "\<lambda>c. kind (heap w ! c) = Presence"]
      set_filtered [OF d, of "\<lambda>c. kind (heap w ! c) = Private"]
      set_filtered [OF d, of "\<lambda>c. kind (heap w ! c) = Public"]
    by (simp add: Channels_def PresenceChannels_def PrivateChannels_def PublicChannels_def
          Channel_IsPresence_def Channel_IsPrivate_def Channel_IsPublic_def distinct_map_filter)
qed

theorem filter_queries_witness:
  "wf busy \<and>
   Channels busy = ([0, 1, 2], busy) \<and> PresenceChannels busy = ([0], busy) \<and>
   PrivateChannels busy = ([1], busy) \<and> PublicChannels busy = ([2], busy) \<and>
   {c. \<exists>n. map_of (channels (app busy)) n = Some c} = {0, 1, 2} \<and>
   {c. \<exists>n. map_of (channels (app busy)) n = Some c \<and> kind (heap busy ! c) = Presence} = {0} \<and>
   {c. \<exists>n. map_of (channels (app busy)) n = Some c \<and> kind (heap busy ! c) = Private} = {1} \<and>
   {c. \<exists>n. map_of (channels (app busy)) n = Some c \<and> kind (heap busy ! c) = Public} = {2}"
proof -
  have e: "fst (Channels busy) = [0, 1, 2]" "fst (PresenceChannels busy) = [0]"
    "fst (PrivateChannels busy) = [1]" "fst (PublicChannels busy) = [2]"
    by (simp_all add: ex_defs Channels_def PresenceChannels_def PrivateChannels_def
          PublicChannels_def Channel_IsPresence_def Channel_IsPrivate_def Channel_IsPublic_def)
  from filter_queries [OF wf_busy]
  have s: "snd (Channels busy) = busy" "snd (PresenceChannels busy) = busy"
    "snd (PrivateChannels busy) = busy" "snd (PublicChannels busy) = busy"
    and q: "set (fst (Channels busy)) = {c. \<exists>n. map_of (channels (app busy)) n = Some c}"
    "set (fst (PresenceChannels busy)) =
       {c. \<exists>n. map_of (channels (app busy)) n = Some c \<and> kind (heap busy ! c) = Presence}"
    "set (fst (PrivateChannels busy)) =
       {c. \<exists>n. map_of (channels (app busy)) n = Some c \<and> kind (heap busy ! c) = Private}"
    "set (fst (PublicChannels busy)) =
       {c. \<exists>n. map_of (channels (app busy)) n = Some c \<and> kind (heap busy ! c) = Public}"
    by blast+
  from q [symmetric] e
  have "{c. \<exists>n. map_of (channels (app busy)) n = Some c} = {0, 1, 2}"
    "{c. \<exists>n. map_of (channels (app busy)) n = Some c \<and> kind (heap busy ! c) = Presence} = {0}"
    "{c. \<exists>n. map_of (channels (app busy)) n = Some c \<and> kind (heap busy ! c) = Private} = {1}"
    "{c. \<exists>n. map_of (channels (app busy)) n = Some c \<and> kind (heap busy ! c) = Public} = {2}"
    by simp_all
  with wf_busy e s show ?thesis by (simp add: prod_eq_iff)
qed

text \<open>
  C9. When the socket identifier of the Connection already has an entry in the connection
  registry, Connect puts the new Connection in the place of that entry, leaves the other
  entries and the number of entries as they were, and adds one to TotalConnections (in
  64-bit arithmetic): the counter grows and the registry does not.
\<close>

theorem Connect_duplicate:
  assumes "map_of (connections (app w)) (SocketID conn) = Some old"
  shows "map_of (connections (app (Connect conn w))) (SocketID conn) = Some conn \<and>
         (\<forall>s. s \<noteq> SocketID conn \<longrightarrow>
            map_of (connections (app (Connect conn w))) s = map_of (connections (app w)) s) \<and>
         length (connections (app (Connect conn w))) = length (connections (app w)) \<and>
         fst ` set (connections (app (Connect conn w))) = fst ` set (connections (app w)) \<and>
         counter (app (Connect conn w)) ''TotalConnections'' =
           counter (app w) ''TotalConnections'' + 1"
proof -
  from assms have k: "SocketID conn \<in> fst ` set (connections (app w))"
    by (rule map_of_Some_key)
  then show ?thesis
    by (auto simp: counter_Connect update_conv' length_update_present dom_update)
qed

theorem Connect_duplicate_witness:
  "map_of (connections (app busy)) (SocketID conn1') = Some conn1 \<and>
   map_of (connections (app (Connect conn1' busy))) ''sock-1'' = Some conn1' \<and>
   length (connections (app (Connect conn1' busy))) = 2 \<and>
   counter (app (Connect conn1' busy)) ''TotalConnections'' = 3"
proof -
  have a: "map_of (connections (app busy)) (SocketID conn1') = Some conn1"
    by (simp add: busy_def conn1'_def)
  have b: "SocketID conn1' = ''sock-1''" "length (connections (app busy)) = 2"
    "counter (app busy) ''TotalConnections'' = 2"
    by (simp_all add: busy_def conn1'_def counter_def)
  show ?thesis using a b Connect_duplicate [OF a] by simp
qed

text \<open>
  C10. For a Channel whose pointer is not in the channel registry, RemoveChannel still
  subtracts one from TotalChannels and from the counter of the kind of the channel (in
  64-bit arithmetic). When the identifier of the channel is not registered either, the
  registry is as it was, so \<open>n\<close> calls in a row leave the registry alone and take
  \<open>n\<close> from both counters: from a fresh Application the counters go below zero.
\<close>

theorem RemoveChannel_unregistered:
  assumes "c \<notin> snd ` set (channels (app w))"
  shows "counter (app (RemoveChannel c w)) ''TotalChannels'' =
           counter (app w) ''TotalChannels'' - 1 \<and>
         counter (app (RemoveChannel c w)) (kind_key (kind (heap w ! c))) =
           counter (app w) (kind_key (kind (heap w ! c))) - 1 \<and>
         (ID (heap w ! c) \<notin> fst ` set (channels (app w)) \<longrightarrow>
            channels (app ((RemoveChannel c ^^ n) w)) = channels (app w) \<and>
            counter (app ((RemoveChannel c ^^ n) w)) ''TotalChannels'' =
              counter (app w) ''TotalChannels'' - of_nat n \<and>
            counter (app ((RemoveChannel c ^^ n) w)) (kind_key (kind (heap w ! c))) =
              counter (app w) (kind_key (kind (heap w ! c))) - of_nat n)"
  using RemoveChannel_funpow [where c = c and n = n and w = w]
  by (simp add: counter_RemoveChannel)

theorem RemoveChannel_unregistered_witness:
  "0 \<notin> snd ` set (channels (app fresh)) \<and>
   ID (heap fresh ! 0) \<notin> fst ` set (channels (app fresh)) \<and>
   length (channels (app ((RemoveChannel 0 ^^ 2) fresh))) = 0 \<and>
   sint (counter (app ((RemoveChannel 0 ^^ 2) fresh)) ''TotalChannels'') = - 2 \<and>
   sint (counter (app ((RemoveChannel 0 ^^ 2) fresh)) ''TotalPresenceChannels'') = - 2"
proof -
  have a: "(0::nat) \<notin> snd ` set (channels (app fresh))"
    and b: "ID (heap fresh ! 0) \<notin> fst ` set (channels (app fresh))"
    and k: "kind_key (kind (heap fresh ! 0)) = ''TotalPresenceChannels''"
    and z: "counter (app fresh) ''TotalChannels'' = 0"
       "counter (app fresh) ''TotalPresenceChannels'' = 0"
    and e: "channels (app fresh) = []"
    by (simp_all add: fresh_def demo_def NewApplication_def room_def kind_key_def counter_def)
  from RemoveChannel_unregistered [OF a, where n = 2] b k z e show ?thesis
    by simp
qed

end
